theory Spec2Isabelle
  imports Complex_Main
begin

unbundle bit_operations_syntax

section \<open>Data model\<close>

text \<open>
  The element types a tensor can hold. The constructors stand for the members of
  \<^verbatim>\<open>exec_aten::ScalarType\<close> that the operators switch over: Byte (uint8), Char (int8),
  Short, Int, Long, Float, Double and Bool. The suffix keeps them apart from HOL's own
  names.
\<close>

datatype ScalarType = ByteT | CharT | ShortT | IntT | LongT | FloatT | DoubleT | BoolT

datatype TensorShapeDynamism = STATIC | DYNAMIC_BOUND | DYNAMIC_UNBOUND

text \<open>
  A failed \<^verbatim>\<open>ET_CHECK\<close> aborts the kernel. The model records which check failed, with
  the error kinds of the specification; \<open>InvalidAccess\<close> stands for the undefined
  behaviour of a read or write through a null pointer or past the end of a buffer.
\<close>

datatype Error = ShapeMismatch | UnsupportedCast | ResizeNotAllowed | UnsupportedDtype
  | InvalidAccess

text \<open>
  One element of a buffer: a C++ \<^verbatim>\<open>bool\<close>, an integer of one of the integer types (held
  in the range of its type), or a floating value, given as the real number it denotes.
  Infinities and NaN have no counterpart here.
\<close>

datatype elem = BoolV bool | IntV int | FloatV real

datatype Scalar = ScalarBool bool | ScalarInt int | ScalarDouble real

text \<open>
  A tensor: its logical shape, its dtype, its buffer and its dynamism. The buffer is the
  sequence of its elements; \<open>None\<close> is the null data pointer, which a tensor without
  elements may carry.
\<close>

record Tensor =
  sizes :: "nat list"
  scalar_type :: ScalarType
  data_ptr :: "elem list option"
  dynamism :: TensorShapeDynamism

definition numel :: "Tensor \<Rightarrow> nat" where
  "numel t = prod_list (sizes t)"

fun element_size :: "ScalarType \<Rightarrow> nat" where
  "element_size ByteT = 1"
| "element_size CharT = 1"
| "element_size ShortT = 2"
| "element_size IntT = 4"
| "element_size LongT = 8"
| "element_size FloatT = 4"
| "element_size DoubleT = 8"
| "element_size BoolT = 1"

definition nbytes :: "Tensor \<Rightarrow> nat" where
  "nbytes t = numel t * element_size (scalar_type t)"

definition elems :: "Tensor \<Rightarrow> elem list" where
  "elems t = (case data_ptr t of None \<Rightarrow> [] | Some d \<Rightarrow> d)"

definition capacity :: "Tensor \<Rightarrow> nat" where
  "capacity t = length (elems t)"

fun isFloatingType :: "ScalarType \<Rightarrow> bool" where
  "isFloatingType FloatT = True"
| "isFloatingType DoubleT = True"
| "isFloatingType _ = False"

fun isIntegralType :: "ScalarType \<Rightarrow> bool" where
  "isIntegralType ByteT = True"
| "isIntegralType CharT = True"
| "isIntegralType ShortT = True"
| "isIntegralType IntT = True"
| "isIntegralType LongT = True"
| "isIntegralType _ = False"

section \<open>The per-element function of bitwise or\<close>

text \<open>
  \<^verbatim>\<open>static_cast<T>\<close> between the element types: to \<^verbatim>\<open>bool\<close> by the non-zero test, to
  an integer type by reduction into the range of the type (the value of a floating
  operand is truncated towards zero first), to a floating type by rounding to the nearest
  value of the type's precision, ties to even: 24 bits for Float, 53 bits for Double.
  Values beyond the finite range of a floating type are not modelled.
\<close>

fun elem_to_bool :: "elem \<Rightarrow> bool" where
  "elem_to_bool (BoolV b) = b"
| "elem_to_bool (IntV i) = (i \<noteq> 0)"
| "elem_to_bool (FloatV r) = (r \<noteq> 0)"

fun elem_to_int :: "elem \<Rightarrow> int" where
  "elem_to_int (BoolV b) = (if b then 1 else 0)"
| "elem_to_int (IntV i) = i"
| "elem_to_int (FloatV r) = (if 0 \<le> r then \<lfloor>r\<rfloor> else \<lceil>r\<rceil>)"

fun wrap_int :: "ScalarType \<Rightarrow> int \<Rightarrow> int" where
  "wrap_int ByteT i = take_bit 8 i"
| "wrap_int CharT i = signed_take_bit 7 i"
| "wrap_int ShortT i = signed_take_bit 15 i"
| "wrap_int IntT i = signed_take_bit 31 i"
| "wrap_int LongT i = signed_take_bit 63 i"
| "wrap_int _ i = i"

text \<open>The number of significand bits of a floating type.\<close>

fun float_precision :: "ScalarType \<Rightarrow> nat" where
  "float_precision FloatT = 24"
| "float_precision DoubleT = 53"
| "float_precision _ = 0"

text \<open>The number of binary digits of a natural number.\<close>

fun bit_length :: "nat \<Rightarrow> nat" where
  "bit_length n = (if n = 0 then 0 else Suc (bit_length (n div 2)))"

text \<open>
  An integer rounded to \<open>p\<close> significant bits: the low \<open>e\<close> bits beyond the precision
  are dropped and the rest goes up when they are more than half, or exactly half with an
  odd last kept bit.
\<close>

definition round_int :: "nat \<Rightarrow> int \<Rightarrow> int" where
  "round_int p i =
     (let a = nat \<bar>i\<bar>;
          e = bit_length a - p;
          q = a div 2 ^ e;
          r = a mod 2 ^ e;
          q' = (if 2 ^ e < 2 * r \<or> (2 * r = 2 ^ e \<and> odd q) then q + 1 else q)
      in sgn i * int (q' * 2 ^ e))"

definition round_half_even :: "real \<Rightarrow> int" where
  "round_half_even x =
     (let f = \<lfloor>x\<rfloor>; d = x - of_int f
      in if d < 1 / 2 then f else if 1 / 2 < d then f + 1
         else if even f then f else f + 1)"

text \<open>
  The exponent of the leading binary digit of a positive real, and scaling by a power of
  two.
\<close>

definition floor_log2 :: "real \<Rightarrow> int" where
  "floor_log2 r =
     (if 1 \<le> r then int (bit_length (nat \<lfloor>r\<rfloor>)) - 1
      else (let y = 1 / r; k = bit_length (nat \<lfloor>y\<rfloor>) - 1
            in if y = 2 ^ k then - int k else - int k - 1))"

definition scale2 :: "int \<Rightarrow> real \<Rightarrow> real" where
  "scale2 e r = (if 0 \<le> e then r * 2 ^ nat e else r / 2 ^ nat (- e))"

text \<open>A real rounded to \<open>p\<close> significant bits.\<close>

definition round_real :: "nat \<Rightarrow> real \<Rightarrow> real" where
  "round_real p r =
     (if r = 0 then 0
      else (let e = floor_log2 \<bar>r\<bar> - int p + 1
            in scale2 e (of_int (round_half_even (scale2 (- e) r)))))"

fun elem_to_floating :: "nat \<Rightarrow> elem \<Rightarrow> real" where
  "elem_to_floating p (BoolV b) = (if b then 1 else 0)"
| "elem_to_floating p (IntV i) = of_int (round_int p i)"
| "elem_to_floating p (FloatV r) = round_real p r"

definition static_cast :: "ScalarType \<Rightarrow> elem \<Rightarrow> elem" where
  "static_cast T e =
     (if T = BoolT then BoolV (elem_to_bool e)
      else if isFloatingType T then FloatV (elem_to_floating (float_precision T) e)
      else IntV (wrap_int T (elem_to_int e)))"

text \<open>
  The template \<^verbatim>\<open>bitwise_or<CTYPE>\<close> is \<^verbatim>\<open>a | b\<close>; its specialisation for
  \<^verbatim>\<open>bool\<close> is \<^verbatim>\<open>a || b\<close>. \<open>bitwise_or CTYPE\<close> selects between the two as the
  instantiation at \<open>CTYPE\<close> does.
\<close>

definition bitwise_or_int :: "int \<Rightarrow> int \<Rightarrow> int" where
  "bitwise_or_int a b = a OR b"

definition bitwise_or_bool :: "bool \<Rightarrow> bool \<Rightarrow> bool" where
  "bitwise_or_bool a b = (a \<or> b)"

definition bitwise_or :: "ScalarType \<Rightarrow> elem \<Rightarrow> elem \<Rightarrow> elem" where
  "bitwise_or CTYPE a b =
     (if CTYPE = BoolT then BoolV (bitwise_or_bool (elem_to_bool a) (elem_to_bool b))
      else IntV (wrap_int CTYPE (bitwise_or_int (elem_to_int a) (elem_to_int b))))"

text \<open>
  The closure both entry points of bitwise or hand to the applier: cast the operands to
  \<open>CTYPE_IN\<close>, combine, cast the result to \<open>CTYPE_OUT\<close>.
\<close>

definition bitwise_or_fn :: "ScalarType \<Rightarrow> ScalarType \<Rightarrow> elem \<Rightarrow> elem \<Rightarrow> elem" where
  "bitwise_or_fn CTYPE_IN CTYPE_OUT val_a val_b =
     (let a_casted = static_cast CTYPE_IN val_a;
          b_casted = static_cast CTYPE_IN val_b;
          val = bitwise_or CTYPE_IN a_casted b_casted
      in static_cast CTYPE_OUT val)"

text \<open>The dtype sets of the \<^verbatim>\<open>ET_SWITCH\<close> macros the operators use.\<close>

definition is_int_type_or_bool :: "ScalarType \<Rightarrow> bool" where
  "is_int_type_or_bool T = (isIntegralType T \<or> T = BoolT)"

definition is_real_type_or_bool :: "ScalarType \<Rightarrow> bool" where
  "is_real_type_or_bool T = (isIntegralType T \<or> isFloatingType T \<or> T = BoolT)"

definition is_scalar_obj_intb_type :: "ScalarType \<Rightarrow> bool" where
  "is_scalar_obj_intb_type T = (T = BoolT \<or> T = LongT)"

section \<open>Shape broadcaster\<close>

text \<open>
  Modelled from the spec: the broadcast rule behind \<^verbatim>\<open>resize_to_broadcast_target_size\<close>
  (\<^verbatim>\<open>broadcast_util.h\<close> is not among the sources). Section 4.1: the shapes are aligned
  from the trailing dimension; a pair of sizes is compatible iff the sizes are equal or
  one of them is 1, and the output size is their maximum; a dimension missing on the
  shorter shape counts as 1; the first incompatible pair yields \<open>ShapeMismatch\<close>.
  \<open>broadcast_from_trailing\<close> walks the two reversed shapes, trailing dimension first.
\<close>

definition broadcast_dim :: "nat \<Rightarrow> nat \<Rightarrow> Error + nat" where
  "broadcast_dim da db =
     (if da = db \<or> da = 1 \<or> db = 1 then Inr (max da db) else Inl ShapeMismatch)"

definition cons_dim :: "Error + nat \<Rightarrow> Error + nat list \<Rightarrow> Error + nat list" where
  "cons_dim d r =
     (case d of Inl e \<Rightarrow> Inl e
      | Inr x \<Rightarrow> (case r of Inl e \<Rightarrow> Inl e | Inr xs \<Rightarrow> Inr (x # xs)))"

fun broadcast_from_trailing :: "nat list \<Rightarrow> nat list \<Rightarrow> Error + nat list" where
  "broadcast_from_trailing [] [] = Inr []"
| "broadcast_from_trailing (x # xs) [] =
     cons_dim (broadcast_dim x 1) (broadcast_from_trailing xs [])"
| "broadcast_from_trailing [] (y # ys) =
     cons_dim (broadcast_dim 1 y) (broadcast_from_trailing [] ys)"
| "broadcast_from_trailing (x # xs) (y # ys) =
     cons_dim (broadcast_dim x y) (broadcast_from_trailing xs ys)"

definition broadcast :: "nat list \<Rightarrow> nat list \<Rightarrow> Error + nat list" where
  "broadcast shapeA shapeB =
     (case broadcast_from_trailing (rev shapeA) (rev shapeB) of
        Inl e \<Rightarrow> Inl e
      | Inr zs \<Rightarrow> Inr (rev zs))"

text \<open>
  The shape \<open>s\<close> as the rule reads it at rank \<open>n\<close>: the missing leading dimensions are 1.
  Used to state the rule, not to compute it.
\<close>

definition aligned :: "nat \<Rightarrow> nat list \<Rightarrow> nat list" where
  "aligned n s = replicate (n - length s) 1 @ s"

text \<open>The same for a reversed shape: the missing dimensions follow the given ones.\<close>

definition padr :: "nat \<Rightarrow> nat list \<Rightarrow> nat list" where
  "padr n xs = xs @ replicate (n - length xs) 1"

section \<open>Type promoter\<close>

text \<open>
  Modelled from the spec: \<^verbatim>\<open>promoteTypes\<close> (not among the sources). Section 4.2: boolean
  promotes to any numeric type; among integer types the result is the wider one, uint8
  against a signed type widening to a signed type that holds both ranges; an integer with
  a floating type gives the floating type; two floating types give the wider one.
\<close>

definition promoteTypes :: "ScalarType \<Rightarrow> ScalarType \<Rightarrow> ScalarType" where
  "promoteTypes a b =
     (if a = b then a
      else if a = BoolT then b
      else if b = BoolT then a
      else if isFloatingType a \<and> isFloatingType b then DoubleT
      else if isFloatingType a then a
      else if isFloatingType b then b
      else if a = ByteT then (if b = CharT then ShortT else b)
      else if b = ByteT then (if a = CharT then ShortT else a)
      else if element_size a < element_size b then b else a)"

text \<open>
  Modelled from the spec: \<^verbatim>\<open>utils::get_scalar_dtype\<close> (\<^verbatim>\<open>scalar_utils.h\<close> is not among
  the sources): the dtype tag of the payload a scalar carries.
\<close>

fun get_scalar_dtype :: "Scalar \<Rightarrow> ScalarType" where
  "get_scalar_dtype (ScalarBool _) = BoolT"
| "get_scalar_dtype (ScalarInt _) = LongT"
| "get_scalar_dtype (ScalarDouble _) = DoubleT"

text \<open>Whether an integer value lies in the range of an integer dtype.\<close>

fun in_range :: "ScalarType \<Rightarrow> int \<Rightarrow> bool" where
  "in_range ByteT i = (0 \<le> i \<and> i < 2 ^ 8)"
| "in_range CharT i = (- (2 ^ 7) \<le> i \<and> i < 2 ^ 7)"
| "in_range ShortT i = (- (2 ^ 15) \<le> i \<and> i < 2 ^ 15)"
| "in_range IntT i = (- (2 ^ 31) \<le> i \<and> i < 2 ^ 31)"
| "in_range LongT i = (- (2 ^ 63) \<le> i \<and> i < 2 ^ 63)"
| "in_range _ i = False"

fun representable :: "ScalarType \<Rightarrow> Scalar \<Rightarrow> bool" where
  "representable T (ScalarBool b) = in_range T (if b then 1 else 0)"
| "representable T (ScalarInt i) = in_range T i"
| "representable T (ScalarDouble r) = False"

text \<open>
  Modelled from the spec: \<^verbatim>\<open>utils::promote_type_with_scalar\<close> (not among the sources).
  Section 4.2: an integer tensor with a boolean or integer scalar keeps its dtype whenever
  the scalar's value is representable in it; an integer tensor with a floating scalar
  promotes to floating. The specification gives no other special case, so every other
  combination follows the lattice with the scalar's own dtype.
\<close>

definition promote_type_with_scalar :: "ScalarType \<Rightarrow> Scalar \<Rightarrow> ScalarType" where
  "promote_type_with_scalar t scalar =
     (if isIntegralType t \<and> representable t scalar then t
      else promoteTypes t (get_scalar_dtype scalar))"

text \<open>
  Modelled from the spec: \<^verbatim>\<open>canCast\<close> (not among the sources). Section 6: widening and
  same-category casts are allowed; floating to integer and signed to unsigned are
  disallowed, unless the output dtype is floating or boolean.
\<close>

definition canCast :: "ScalarType \<Rightarrow> ScalarType \<Rightarrow> bool" where
  "canCast from_type to_type =
     (if isFloatingType to_type \<or> to_type = BoolT then True
      else if isFloatingType from_type then False
      else if isIntegralType from_type \<and> from_type \<noteq> ByteT \<and> to_type = ByteT then False
      else True)"

section \<open>Tensor resizer\<close>

text \<open>
  Modelled from the spec: \<^verbatim>\<open>resize_tensor\<close> (not among the sources). Section 4.3: a
  \<open>STATIC\<close> tensor accepts only its own shape; a \<open>DYNAMIC_BOUND\<close> tensor accepts a shape
  whose product is at most its capacity; a \<open>DYNAMIC_UNBOUND\<close> tensor accepts every shape,
  with more storage from the allocator when the capacity is too small. Only the shape
  changes. The storage the allocator adds is modelled as zero elements appended to the
  buffer; the specification does not define its contents.
\<close>

fun zero_elem :: "ScalarType \<Rightarrow> elem" where
  "zero_elem BoolT = BoolV False"
| "zero_elem FloatT = FloatV 0"
| "zero_elem DoubleT = FloatV 0"
| "zero_elem _ = IntV 0"

definition resize_tensor :: "Tensor \<Rightarrow> nat list \<Rightarrow> Error + Tensor" where
  "resize_tensor t targetShape =
     (case dynamism t of
        STATIC \<Rightarrow>
          if targetShape = sizes t then Inr t else Inl ResizeNotAllowed
      | DYNAMIC_BOUND \<Rightarrow>
          if prod_list targetShape \<le> capacity t then Inr (t\<lparr>sizes := targetShape\<rparr>)
          else Inl ResizeNotAllowed
      | DYNAMIC_UNBOUND \<Rightarrow>
          if prod_list targetShape \<le> capacity t then Inr (t\<lparr>sizes := targetShape\<rparr>)
          else Inr (t\<lparr>sizes := targetShape,
                      data_ptr := Some (elems t @
                        replicate (prod_list targetShape - capacity t)
                          (zero_elem (scalar_type t)))\<rparr>))"

text \<open>
  Modelled from the spec: \<^verbatim>\<open>resize_to_broadcast_target_size\<close> (not among the sources):
  the broadcaster gives the target shape, the resizer applies it to the output, and a
  failure of either ends the call.
\<close>

definition resize_to_broadcast_target_size :: "Tensor \<Rightarrow> Tensor \<Rightarrow> Tensor \<Rightarrow> Error + Tensor" where
  "resize_to_broadcast_target_size a b out =
     (case broadcast (sizes a) (sizes b) of
        Inl e \<Rightarrow> Inl e
      | Inr target \<Rightarrow> resize_tensor out target)"

section \<open>Elementwise applier\<close>

text \<open>
  Reads and writes through a data pointer. \<open>None\<close> as a result is an access through a
  null pointer or outside the buffer.
\<close>

definition load :: "elem list option \<Rightarrow> nat \<Rightarrow> elem option" where
  "load p i = (case p of None \<Rightarrow> None
               | Some d \<Rightarrow> if i < length d then Some (d ! i) else None)"

definition store :: "elem list option \<Rightarrow> nat \<Rightarrow> elem \<Rightarrow> elem list option option" where
  "store p i v = (case p of None \<Rightarrow> None
                  | Some d \<Rightarrow> if i < length d then Some (Some (d[i := v])) else None)"

text \<open>
  Modelled from the spec: \<^verbatim>\<open>apply_unary_map_fn\<close> (\<^verbatim>\<open>functional_util.h\<close> is not among
  the sources): for each of the first \<open>n\<close> positions in order, read the input element,
  apply the function, store the result at the same position.
\<close>

fun unary_map_loop ::
  "(elem \<Rightarrow> elem) \<Rightarrow> elem list option \<Rightarrow> elem list option \<Rightarrow> nat list \<Rightarrow> elem list option option" where
  "unary_map_loop fn data_in data_out [] = Some data_out"
| "unary_map_loop fn data_in data_out (i # rest) =
     (case load data_in i of
        None \<Rightarrow> None
      | Some x \<Rightarrow>
          (case store data_out i (fn x) of
             None \<Rightarrow> None
           | Some data_out' \<Rightarrow> unary_map_loop fn data_in data_out' rest))"

definition apply_unary_map_fn ::
  "(elem \<Rightarrow> elem) \<Rightarrow> elem list option \<Rightarrow> elem list option \<Rightarrow> nat \<Rightarrow> elem list option option" where
  "apply_unary_map_fn fn data_in data_out n = unary_map_loop fn data_in data_out [0..<n]"

text \<open>
  Modelled from the spec: \<^verbatim>\<open>apply_binary_elementwise_fn\<close> (\<^verbatim>\<open>broadcast_util.h\<close> is not
  among the sources). Section 4.4: every multi-index over the output shape is visited in
  row-major order; each input's source multi-index is the output's with every dimension
  of size 1 in that input set to 0 (and the dimensions the input lacks dropped); the
  result is stored at the linear position of the output.
\<close>

fun delinearize :: "nat \<Rightarrow> nat list \<Rightarrow> nat list" where
  "delinearize i [] = []"
| "delinearize i (d # ds) = (i div prod_list ds) mod d # delinearize (i mod prod_list ds) ds"

fun linearize :: "nat list \<Rightarrow> nat list \<Rightarrow> nat" where
  "linearize (k # ks) (d # ds) = k * prod_list ds + linearize ks ds"
| "linearize _ _ = 0"

definition broadcast_index :: "nat list \<Rightarrow> nat list \<Rightarrow> nat list" where
  "broadcast_index in_shape out_index =
     map2 (\<lambda>d k. if d = 1 then 0 else k) in_shape
       (drop (length out_index - length in_shape) out_index)"

definition source_offset :: "nat list \<Rightarrow> nat list \<Rightarrow> nat \<Rightarrow> nat" where
  "source_offset in_shape out_shape i =
     linearize (broadcast_index in_shape (delinearize i out_shape)) in_shape"

fun binary_elementwise_loop ::
  "(elem \<Rightarrow> elem \<Rightarrow> elem) \<Rightarrow> Tensor \<Rightarrow> Tensor \<Rightarrow> nat list \<Rightarrow> elem list option \<Rightarrow> nat list
     \<Rightarrow> elem list option option" where
  "binary_elementwise_loop fn a b out_shape data_out [] = Some data_out"
| "binary_elementwise_loop fn a b out_shape data_out (i # rest) =
     (case load (data_ptr a) (source_offset (sizes a) out_shape i) of
        None \<Rightarrow> None
      | Some x \<Rightarrow>
          (case load (data_ptr b) (source_offset (sizes b) out_shape i) of
             None \<Rightarrow> None
           | Some y \<Rightarrow>
               (case store data_out i (fn x y) of
                  None \<Rightarrow> None
                | Some data_out' \<Rightarrow>
                    binary_elementwise_loop fn a b out_shape data_out' rest)))"

definition apply_binary_elementwise_fn ::
  "(elem \<Rightarrow> elem \<Rightarrow> elem) \<Rightarrow> Tensor \<Rightarrow> Tensor \<Rightarrow> Tensor \<Rightarrow> Tensor option" where
  "apply_binary_elementwise_fn fn a b out =
     (case binary_elementwise_loop fn a b (sizes out) (data_ptr out) [0..<numel out] of
        None \<Rightarrow> None
      | Some d \<Rightarrow> Some (out\<lparr>data_ptr := d\<rparr>))"

section \<open>Operator entry points\<close>

text \<open>
  The result of an entry point: the output tensor, or the kind of the check that failed
  together with the output tensor as the call left it.
\<close>

type_synonym result = "Error \<times> Tensor + Tensor"

text \<open>\<^verbatim>\<open>bitwise_or_Tensor_out\<close> of \<^verbatim>\<open>op_bitwise_or.cpp\<close>.\<close>

definition bitwise_or_Tensor_out :: "Tensor \<Rightarrow> Tensor \<Rightarrow> Tensor \<Rightarrow> result" where
  "bitwise_or_Tensor_out a b out =
     (case resize_to_broadcast_target_size a b out of
        Inl e \<Rightarrow> Inl (e, out)
      | Inr out1 \<Rightarrow>
          (let a_type = scalar_type a;
               b_type = scalar_type b;
               common_type = promoteTypes a_type b_type;
               out_type = scalar_type out1
           in if \<not> canCast common_type out_type then Inl (UnsupportedCast, out1)
              else if \<not> is_int_type_or_bool a_type then Inl (UnsupportedDtype, out1)
              else if \<not> is_int_type_or_bool b_type then Inl (UnsupportedDtype, out1)
              else if \<not> is_int_type_or_bool common_type then Inl (UnsupportedDtype, out1)
              else if \<not> is_real_type_or_bool out_type then Inl (UnsupportedDtype, out1)
              else (case apply_binary_elementwise_fn
                           (bitwise_or_fn common_type out_type) a b out1 of
                      None \<Rightarrow> Inl (InvalidAccess, out1)
                    | Some out2 \<Rightarrow> Inr out2)))"

text \<open>
  \<^verbatim>\<open>ET_EXTRACT_SCALAR\<close>: the payload of the scalar as a value of \<open>CTYPE_B\<close>, which the
  switch before it has fixed to \<^verbatim>\<open>bool\<close> or \<^verbatim>\<open>int64_t\<close>.
\<close>

fun extract_scalar :: "Scalar \<Rightarrow> elem" where
  "extract_scalar (ScalarBool v) = BoolV v"
| "extract_scalar (ScalarInt v) = IntV v"
| "extract_scalar (ScalarDouble v) = FloatV v"

text \<open>\<^verbatim>\<open>bitwise_or_Scalar_out\<close> of \<^verbatim>\<open>op_bitwise_or.cpp\<close>.\<close>

definition bitwise_or_Scalar_out :: "Tensor \<Rightarrow> Scalar \<Rightarrow> Tensor \<Rightarrow> result" where
  "bitwise_or_Scalar_out a b out =
     (case resize_tensor out (sizes a) of
        Inl e \<Rightarrow> Inl (e, out)
      | Inr out1 \<Rightarrow>
          (let a_type = scalar_type a;
               b_type = get_scalar_dtype b;
               common_type = promote_type_with_scalar a_type b;
               out_type = scalar_type out1
           in if \<not> canCast common_type out_type then Inl (UnsupportedCast, out1)
              else if \<not> is_int_type_or_bool a_type then Inl (UnsupportedDtype, out1)
              else if \<not> is_scalar_obj_intb_type b_type then Inl (UnsupportedDtype, out1)
              else (let val_b = extract_scalar b
                    in if \<not> is_int_type_or_bool common_type then Inl (UnsupportedDtype, out1)
                       else if \<not> is_real_type_or_bool out_type then Inl (UnsupportedDtype, out1)
                       else (case apply_unary_map_fn
                                    (\<lambda>val_a. bitwise_or_fn common_type out_type val_a val_b)
                                    (data_ptr a) (data_ptr out1) (numel out1) of
                               None \<Rightarrow> Inl (InvalidAccess, out1)
                             | Some d \<Rightarrow> Inr (out1\<lparr>data_ptr := d\<rparr>)))))"

text \<open>
  \<^verbatim>\<open>memcpy\<close> between two buffers of elements of width \<open>width\<close>: the first
  \<open>n div width\<close> elements of the source replace those of the destination. A null pointer
  on either side is invalid whatever the size, as the comment in
  \<^verbatim>\<open>detach_copy_out\<close> says.
\<close>

definition memcpy ::
  "elem list option \<Rightarrow> elem list option \<Rightarrow> nat \<Rightarrow> nat \<Rightarrow> elem list option option" where
  "memcpy dst src width n =
     (case dst of
        None \<Rightarrow> None
      | Some d \<Rightarrow>
          (case src of
             None \<Rightarrow> None
           | Some s \<Rightarrow>
               (let k = n div width
                in if k \<le> length s \<and> k \<le> length d then Some (Some (take k s @ drop k d))
                   else None)))"

text \<open>
  \<^verbatim>\<open>detach_copy_out\<close> of \<^verbatim>\<open>op_detach_copy.cpp\<close>. \<^verbatim>\<open>ET_CHECK_SAME_SHAPE_AND_DTYPE2\<close>
  compares the shapes, then the dtypes.
\<close>

definition detach_copy_out :: "Tensor \<Rightarrow> Tensor \<Rightarrow> result" where
  "detach_copy_out self out =
     (case resize_tensor out (sizes self) of
        Inl e \<Rightarrow> Inl (e, out)
      | Inr out1 \<Rightarrow>
          if sizes self \<noteq> sizes out1 then Inl (ShapeMismatch, out1)
          else if scalar_type self \<noteq> scalar_type out1 then Inl (UnsupportedDtype, out1)
          else if nbytes self > 0 then
            (case memcpy (data_ptr out1) (data_ptr self)
                    (element_size (scalar_type self)) (nbytes self) of
               None \<Rightarrow> Inl (InvalidAccess, out1)
             | Some d \<Rightarrow> Inr (out1\<lparr>data_ptr := d\<rparr>))
          else Inr out1)"


section \<open>Example tensors\<close>

text \<open>Small tensors on which the statements below are run.\<close>

definition example_float2 :: Tensor where
  "example_float2 =
     \<lparr>sizes = [2], scalar_type = FloatT, data_ptr = Some [FloatV 1, FloatV 2],
       dynamism = STATIC\<rparr>"

definition example_int2 :: Tensor where
  "example_int2 =
     \<lparr>sizes = [2], scalar_type = IntT, data_ptr = Some [IntV 1, IntV 2], dynamism = STATIC\<rparr>"

definition example_int3_static :: Tensor where
  "example_int3_static =
     \<lparr>sizes = [3], scalar_type = IntT, data_ptr = Some [IntV 0, IntV 0, IntV 0],
       dynamism = STATIC\<rparr>"

definition example_int4_bound :: Tensor where
  "example_int4_bound =
     \<lparr>sizes = [4], scalar_type = IntT, data_ptr = Some [IntV 0, IntV 0, IntV 0, IntV 0],
       dynamism = DYNAMIC_BOUND\<rparr>"

definition example_float4_bound :: Tensor where
  "example_float4_bound =
     \<lparr>sizes = [4], scalar_type = FloatT,
       data_ptr = Some [FloatV 0, FloatV 0, FloatV 0, FloatV 0], dynamism = DYNAMIC_BOUND\<rparr>"

definition example_float4 :: Tensor where
  "example_float4 =
     \<lparr>sizes = [4], scalar_type = FloatT,
       data_ptr = Some [FloatV 1, FloatV 1, FloatV 1, FloatV 1], dynamism = STATIC\<rparr>"

definition example_int2x2_static :: Tensor where
  "example_int2x2_static =
     \<lparr>sizes = [2, 2], scalar_type = IntT,
       data_ptr = Some [IntV 0, IntV 0, IntV 0, IntV 0], dynamism = STATIC\<rparr>"

lemmas example_defs = example_float2_def example_int2_def example_int3_static_def
  example_int4_bound_def example_float4_bound_def example_float4_def
  example_int2x2_static_def

lemmas eval_defs = detach_copy_out_def bitwise_or_Tensor_out_def bitwise_or_Scalar_out_def
  resize_tensor_def resize_to_broadcast_target_size_def broadcast_def broadcast_dim_def
  cons_dim_def capacity_def elems_def canCast_def promoteTypes_def promote_type_with_scalar_def
  is_int_type_or_bool_def is_real_type_or_bool_def is_scalar_obj_intb_type_def nbytes_def
  numel_def memcpy_def Let_def

lemmas apply_defs = apply_unary_map_fn_def apply_binary_elementwise_fn_def load_def store_def
  bitwise_or_fn_def static_cast_def bitwise_or_def bitwise_or_int_def bitwise_or_bool_def
  source_offset_def broadcast_index_def upt_conv_Cons

section \<open>The per-element function\<close>

text \<open>
  C2: for all booleans \<open>a\<close> and \<open>b\<close>, the per-element function of bitwise or at the
  computation dtype boolean returns the logical disjunction of \<open>a\<close> and \<open>b\<close>: it is true
  iff \<open>a\<close> is true or \<open>b\<close> is true.
\<close>

theorem bitwise_or_bool_is_logical_or:
  "bitwise_or BoolT (BoolV a) (BoolV b) = BoolV (a \<or> b)"
  by (simp add: bitwise_or_def bitwise_or_bool_def)

text \<open>
  Casts to the floating types round: \<open>2^24 + 1\<close> is not a Float and \<open>2^53 + 1\<close> is not
  a Double, and both go to the even neighbour below.
\<close>

lemma bit_length_examples:
  "bit_length 16777217 = 25"
  "bit_length 9007199254740993 = 54"
  by simp_all

lemma round_int_examples:
  "round_int 24 16777217 = 16777216"
  "round_int 53 9007199254740993 = 9007199254740992"
  "round_int 53 16777217 = 16777217"
  unfolding round_int_def Let_def
  by (simp_all only: bit_length_examples abs_numeral nat_numeral) simp_all

lemma static_cast_rounds_to_float:
  "static_cast FloatT (IntV 16777217) = FloatV 16777216"
  "static_cast DoubleT (IntV 9007199254740993) = FloatV 9007199254740992"
  "static_cast DoubleT (IntV 16777217) = FloatV 16777217"
  by (simp_all add: static_cast_def round_int_examples)

section \<open>Broadcasting\<close>

lemma padr_simps:
  "padr (Suc n) (x # xs) = x # padr n xs"
  "padr (Suc n) [] = 1 # padr n []"
  "padr 0 [] = []"
  by (simp_all add: padr_def)

lemma rev_aligned: "rev (aligned n s) = padr n (rev s)"
  by (simp add: aligned_def padr_def)

text \<open>The walk over the reversed shapes, as a test on the padded shapes.\<close>

lemma broadcast_from_trailing_padr:
  "broadcast_from_trailing xs ys =
     (let n = max (length xs) (length ys) in
      if list_all2 (\<lambda>da db. da = db \<or> da = 1 \<or> db = 1) (padr n xs) (padr n ys)
      then Inr (map2 max (padr n xs) (padr n ys)) else Inl ShapeMismatch)"
proof (induction xs ys rule: broadcast_from_trailing.induct)
  case 1
  show ?case by (simp add: padr_simps)
next
  case (2 x xs)
  then show ?case
    by (simp add: padr_simps Let_def broadcast_dim_def cons_dim_def)
next
  case (3 y ys)
  then show ?case
    by (simp add: padr_simps Let_def broadcast_dim_def cons_dim_def)
next
  case (4 x xs y ys)
  then show ?case
    by (simp add: padr_simps Let_def broadcast_dim_def cons_dim_def)
qed

lemma broadcast_aligned:
  "broadcast A B =
     (let n = max (length A) (length B) in
      if list_all2 (\<lambda>da db. da = db \<or> da = 1 \<or> db = 1) (aligned n A) (aligned n B)
      then Inr (map2 max (aligned n A) (aligned n B)) else Inl ShapeMismatch)"
proof -
  let ?n = "max (length A) (length B)"
  have len: "length (aligned ?n A) = length (aligned ?n B)"
    by (simp add: aligned_def)
  have r: "padr ?n (rev A) = rev (aligned ?n A)" "padr ?n (rev B) = rev (aligned ?n B)"
    by (simp_all add: rev_aligned)
  show ?thesis
    unfolding broadcast_def broadcast_from_trailing_padr Let_def length_rev r
    using len by (simp add: zip_rev rev_map[symmetric])
qed

lemma broadcast_Inl: "broadcast A B = Inl e \<Longrightarrow> e = ShapeMismatch"
  by (simp add: broadcast_aligned Let_def split: if_splits)

text \<open>
  C3: for all shapes \<open>A\<close> and \<open>B\<close>, with both read at rank \<open>n = max (rank A) (rank B)\<close>
  from the trailing dimension (missing leading dimensions are 1): if at every position the
  two sizes are equal or one of them is 1, broadcasting succeeds with a shape of rank \<open>n\<close>
  whose size at each position is the maximum of the pair; otherwise it yields
  \<open>ShapeMismatch\<close> and no shape.
\<close>

theorem broadcast_rule:
  "(let n = max (length A) (length B); A' = aligned n A; B' = aligned n B in
     if (\<forall>i<n. A' ! i = B' ! i \<or> A' ! i = 1 \<or> B' ! i = 1)
     then broadcast A B = Inr (map2 max A' B') \<and> length (map2 max A' B') = n \<and>
          (\<forall>i<n. map2 max A' B' ! i = max (A' ! i) (B' ! i))
     else broadcast A B = Inl ShapeMismatch)"
proof -
  let ?n = "max (length A) (length B)"
  have la: "length (aligned ?n A) = ?n" and lb: "length (aligned ?n B) = ?n"
    by (simp_all add: aligned_def)
  show ?thesis
    unfolding Let_def broadcast_aligned
    using la lb by (simp add: list_all2_conv_all_nth)
qed

text \<open>
  The rule at the shapes \<open>[3, 1]\<close> and \<open>[5]\<close>, which are compatible, and at the
  specification's incompatible example \<open>[3, 4]\<close> and \<open>[5]\<close>.
\<close>

theorem broadcast_rule_witness:
  "broadcast [3, 1] [5] = Inr [3, 5] \<and> broadcast [3, 4] [5] = Inl ShapeMismatch"
  using broadcast_rule[of "[3, 1]" "[5]"] broadcast_rule[of "[3, 4]" "[5]"]
  by (simp add: aligned_def Let_def less_Suc_eq all_conj_distrib)

section \<open>Type promotion with a scalar\<close>

text \<open>
  C4: for every integer dtype \<open>t\<close> of the tensor, promotion with a boolean scalar, or with
  an integer scalar whose value lies in the range of \<open>t\<close>, returns \<open>t\<close> itself; promotion
  with a floating scalar returns a floating dtype.
\<close>

theorem promote_type_with_scalar_integer_tensor:
  "isIntegralType t \<Longrightarrow>
     promote_type_with_scalar t (ScalarBool v) = t \<and>
     (in_range t i \<longrightarrow> promote_type_with_scalar t (ScalarInt i) = t) \<and>
     isFloatingType (promote_type_with_scalar t (ScalarDouble r))"
  by (cases t) (simp_all add: promote_type_with_scalar_def promoteTypes_def)

theorem promote_type_with_scalar_integer_tensor_witness:
  "isIntegralType IntT \<and> promote_type_with_scalar IntT (ScalarBool True) = IntT \<and>
   in_range IntT 7 \<and> promote_type_with_scalar IntT (ScalarInt 7) = IntT \<and>
   isFloatingType (promote_type_with_scalar IntT (ScalarDouble 2))"
  using promote_type_with_scalar_integer_tensor[of IntT True 7 2]
  by simp

section \<open>Resizing\<close>

lemma resize_tensor_Inl: "resize_tensor t s = Inl e \<Longrightarrow> e = ResizeNotAllowed"
  by (auto simp: resize_tensor_def split: TensorShapeDynamism.splits if_splits)

text \<open>
  A successful resize gives the tensor the target shape, keeps its dtype and dynamism, and
  leaves every element the buffer held where it was.
\<close>

lemma resize_tensor_Inr:
  assumes "resize_tensor t s = Inr t'"
  shows "sizes t' = s" and "scalar_type t' = scalar_type t" and "dynamism t' = dynamism t"
    and "take (capacity t) (elems t') = elems t"
  using assms
  by (auto simp: resize_tensor_def capacity_def elems_def
      split: TensorShapeDynamism.splits if_splits option.splits)

lemma resize_tensor_no_growth:
  "resize_tensor t s = Inr t' \<Longrightarrow> prod_list s \<le> capacity t \<Longrightarrow> t' = t\<lparr>sizes := s\<rparr>"
  by (auto simp: resize_tensor_def split: TensorShapeDynamism.splits if_splits)

text \<open>
  C5: resizing a \<open>STATIC\<close> tensor succeeds iff the target shape is the tensor's shape, and
  resizing a \<open>DYNAMIC_BOUND\<close> tensor succeeds iff the product of the target shape is at most
  the capacity; a success changes nothing but the shape, a failure is \<open>ResizeNotAllowed\<close>.
\<close>

theorem resize_tensor_rule:
  "(dynamism t = STATIC \<longrightarrow>
      (if s = sizes t then resize_tensor t s = Inr t
       else resize_tensor t s = Inl ResizeNotAllowed)) \<and>
   (dynamism t = DYNAMIC_BOUND \<longrightarrow>
      (if prod_list s \<le> capacity t then resize_tensor t s = Inr (t\<lparr>sizes := s\<rparr>)
       else resize_tensor t s = Inl ResizeNotAllowed))"
  by (simp add: resize_tensor_def)

theorem resize_tensor_rule_witness:
  "resize_tensor
     \<lparr>sizes = [2, 3], scalar_type = FloatT, data_ptr = Some (replicate 6 (FloatV 0)),
       dynamism = STATIC\<rparr> [2, 3]
   = Inr \<lparr>sizes = [2, 3], scalar_type = FloatT, data_ptr = Some (replicate 6 (FloatV 0)),
       dynamism = STATIC\<rparr>
   \<and> resize_tensor
     \<lparr>sizes = [2, 3], scalar_type = FloatT, data_ptr = Some (replicate 6 (FloatV 0)),
       dynamism = STATIC\<rparr> [3, 2]
   = Inl ResizeNotAllowed
   \<and> resize_tensor
     \<lparr>sizes = [4], scalar_type = FloatT, data_ptr = Some (replicate 4 (FloatV 0)),
       dynamism = DYNAMIC_BOUND\<rparr> [3]
   = Inr \<lparr>sizes = [3], scalar_type = FloatT, data_ptr = Some (replicate 4 (FloatV 0)),
       dynamism = DYNAMIC_BOUND\<rparr>
   \<and> resize_tensor
     \<lparr>sizes = [4], scalar_type = FloatT, data_ptr = Some (replicate 4 (FloatV 0)),
       dynamism = DYNAMIC_BOUND\<rparr> [5]
   = Inl ResizeNotAllowed"
  using
    resize_tensor_rule[of "\<lparr>sizes = [2, 3], scalar_type = FloatT,
      data_ptr = Some (replicate 6 (FloatV 0)), dynamism = STATIC\<rparr>" "[2, 3]"]
    resize_tensor_rule[of "\<lparr>sizes = [2, 3], scalar_type = FloatT,
      data_ptr = Some (replicate 6 (FloatV 0)), dynamism = STATIC\<rparr>" "[3, 2]"]
    resize_tensor_rule[of "\<lparr>sizes = [4], scalar_type = FloatT,
      data_ptr = Some (replicate 4 (FloatV 0)), dynamism = DYNAMIC_BOUND\<rparr>" "[3]"]
    resize_tensor_rule[of "\<lparr>sizes = [4], scalar_type = FloatT,
      data_ptr = Some (replicate 4 (FloatV 0)), dynamism = DYNAMIC_BOUND\<rparr>" "[5]"]
  by (simp add: capacity_def elems_def)

lemma resize_to_broadcast_target_size_Inl:
  "resize_to_broadcast_target_size a b out = Inl e \<Longrightarrow>
     e = ShapeMismatch \<or> e = ResizeNotAllowed"
  by (auto simp: resize_to_broadcast_target_size_def split: sum.splits
      dest: broadcast_Inl resize_tensor_Inl)

lemma resize_to_broadcast_target_size_Inr:
  "resize_to_broadcast_target_size a b out = Inr out1 \<Longrightarrow>
     take (capacity out) (elems out1) = elems out \<and> scalar_type out1 = scalar_type out \<and>
     broadcast (sizes a) (sizes b) = Inr (sizes out1)"
  by (auto simp: resize_to_broadcast_target_size_def split: sum.splits
      dest: resize_tensor_Inr)

section \<open>A strictly floating operator\<close>




section \<open>The copy operator\<close>

lemma element_size_pos: "0 < element_size T"
  by (cases T) simp_all

lemma nbytes_div: "nbytes t div element_size (scalar_type t) = numel t"
  using element_size_pos[of "scalar_type t"] by (simp add: nbytes_def)

lemma memcpy_Some:
  assumes "memcpy dst src w n = Some r"
  shows "\<exists>d s. dst = Some d \<and> src = Some s \<and> n div w \<le> length s \<and> n div w \<le> length d
          \<and> r = Some (take (n div w) s @ drop (n div w) d)"
  using assms by (auto simp: memcpy_def Let_def split: option.splits if_splits)

text \<open>What a successful copy has done.\<close>

lemma detach_copy_out_Inr:
  assumes "detach_copy_out self out = Inr out'"
  shows "sizes out' = sizes self" and "scalar_type out' = scalar_type self"
    and "scalar_type out = scalar_type self"
    and "\<forall>i<numel self. load (data_ptr self) i \<noteq> None \<and>
           load (data_ptr out') i = load (data_ptr self) i"
proof -
  from assms obtain out1 where r: "resize_tensor out (sizes self) = Inr out1"
    by (auto simp: detach_copy_out_def split: sum.splits)
  from assms r have sh: "sizes self = sizes out1" and ty: "scalar_type self = scalar_type out1"
    by (auto simp: detach_copy_out_def split: if_splits)
  show "scalar_type out = scalar_type self"
    using ty resize_tensor_Inr(2)[OF r] by simp
  show "sizes out' = sizes self" "scalar_type out' = scalar_type self"
    using assms r sh ty by (auto simp: detach_copy_out_def split: if_splits option.splits)
  show "\<forall>i<numel self. load (data_ptr self) i \<noteq> None \<and>
          load (data_ptr out') i = load (data_ptr self) i"
  proof (cases "nbytes self > 0")
    case False
    then have "numel self = 0"
      using element_size_pos[of "scalar_type self"] by (simp add: nbytes_def)
    then show ?thesis by simp
  next
    case True
    with assms r sh ty obtain d where
      m: "memcpy (data_ptr out1) (data_ptr self) (element_size (scalar_type self)) (nbytes self)
            = Some d"
      and o: "out' = out1\<lparr>data_ptr := d\<rparr>"
      by (auto simp: detach_copy_out_def split: if_splits option.splits)
    from memcpy_Some[OF m] show ?thesis
      using o by (auto simp: nbytes_div load_def nth_append)
  qed
qed

text \<open>What a failed copy has left.\<close>

lemma detach_copy_out_Inl:
  assumes "detach_copy_out self out = Inl (e, out')"
  shows "take (capacity out) (elems out') = elems out"
    and "if e = ShapeMismatch \<or> e = ResizeNotAllowed then out' = out
         else resize_tensor out (sizes self) = Inr out'"
proof -
  show "take (capacity out) (elems out') = elems out"
    using assms
    by (auto simp: detach_copy_out_def capacity_def
        split: sum.splits if_splits option.splits dest: resize_tensor_Inr(4))
  show "if e = ShapeMismatch \<or> e = ResizeNotAllowed then out' = out
         else resize_tensor out (sizes self) = Inr out'"
    using assms
    by (auto simp: detach_copy_out_def
        split: sum.splits if_splits option.splits dest: resize_tensor_Inr(1) resize_tensor_Inl)
qed

text \<open>
  C7: for every input tensor without elements (some dimension of its shape is 0) and every
  output of the same dtype that can take the input's shape, the copy succeeds and returns
  the resized output with its data pointer untouched, whatever the two data pointers are,
  the null pointer included: no buffer is read or written and \<^verbatim>\<open>memcpy\<close> is not called.
\<close>

theorem detach_copy_out_zero_elements:
  assumes "0 \<in> set (sizes self)" and "scalar_type out = scalar_type self"
    and "resize_tensor out (sizes self) = Inr out1"
  shows "detach_copy_out self out = Inr out1 \<and> data_ptr out1 = data_ptr out"
proof -
  have z: "prod_list (sizes self) = 0"
    using assms(1) by (simp add: prod_list_zero_iff)
  then have "out1 = out\<lparr>sizes := sizes self\<rparr>"
    using assms(3) by (simp add: resize_tensor_no_growth)
  then show ?thesis
    using assms(2,3) z by (simp add: detach_copy_out_def nbytes_def numel_def)
qed

text \<open>Input and output of shape \<open>[0, 3]\<close>, both with a null data pointer.\<close>

theorem detach_copy_out_zero_elements_witness:
  "0 \<in> set [0, 3] \<and>
   detach_copy_out
     \<lparr>sizes = [0, 3], scalar_type = IntT, data_ptr = None, dynamism = STATIC\<rparr>
     \<lparr>sizes = [0, 3], scalar_type = IntT, data_ptr = None, dynamism = STATIC\<rparr>
   = Inr \<lparr>sizes = [0, 3], scalar_type = IntT, data_ptr = None, dynamism = STATIC\<rparr>"
proof -
  let ?t = "\<lparr>sizes = [0, 3], scalar_type = IntT, data_ptr = None, dynamism = STATIC\<rparr>"
  have r: "resize_tensor ?t (sizes ?t) = Inr ?t"
    by (simp add: resize_tensor_def)
  have "0 \<in> set (sizes ?t)" and "scalar_type ?t = scalar_type ?t"
    by simp_all
  from detach_copy_out_zero_elements[OF this r] show ?thesis
    by simp
qed

text \<open>
  C8: for every input tensor, when the copy succeeds the output has the input's shape and
  each of its elements is the element of the input at the same position.
\<close>

theorem detach_copy_out_copies_elements:
  "detach_copy_out self out = Inr out' \<Longrightarrow>
     sizes out' = sizes self \<and>
     (\<forall>i<numel self. \<exists>v. load (data_ptr self) i = Some v \<and> load (data_ptr out') i = Some v)"
  using detach_copy_out_Inr(1,4)[of self out out'] by fastforce

theorem detach_copy_out_copies_elements_witness:
  "detach_copy_out example_int2
     (example_int3_static\<lparr>sizes := [2], dynamism := DYNAMIC_BOUND\<rparr>)
   = Inr \<lparr>sizes = [2], scalar_type = IntT, data_ptr = Some [IntV 1, IntV 2, IntV 0],
       dynamism = DYNAMIC_BOUND\<rparr>
   \<and> load (Some [IntV 1, IntV 2, IntV 0]) 0 = load (data_ptr example_int2) 0
   \<and> load (Some [IntV 1, IntV 2, IntV 0]) 1 = load (data_ptr example_int2) 1"
proof -
  let ?o = "example_int3_static\<lparr>sizes := [2], dynamism := DYNAMIC_BOUND\<rparr>"
  let ?r = "\<lparr>sizes = [2], scalar_type = IntT, data_ptr = Some [IntV 1, IntV 2, IntV 0],
       dynamism = DYNAMIC_BOUND\<rparr>"
  have h: "detach_copy_out example_int2 ?o = Inr ?r"
    by (simp add: example_defs eval_defs)
  from detach_copy_out_copies_elements[OF h] h show ?thesis
    by (simp add: numel_def example_defs load_def)
qed

text \<open>
  C10: the copy requires input and output of the same dtype. When the dtypes differ the
  call fails and every element the output buffer held is unchanged; when the call succeeds
  the dtypes are equal and the elements of the output are those of the input, unconverted.
\<close>

theorem detach_copy_out_same_dtype:
  "(scalar_type self \<noteq> scalar_type out \<longrightarrow>
      (\<exists>e out1. detach_copy_out self out = Inl (e, out1) \<and>
         take (capacity out) (elems out1) = elems out)) \<and>
   (detach_copy_out self out = Inr out' \<longrightarrow>
      scalar_type out = scalar_type self \<and> scalar_type out' = scalar_type self \<and>
      (\<forall>i<numel self. \<exists>v. load (data_ptr self) i = Some v \<and> load (data_ptr out') i = Some v))"
proof (intro conjI impI)
  assume ne: "scalar_type self \<noteq> scalar_type out"
  show "\<exists>e out1. detach_copy_out self out = Inl (e, out1) \<and>
         take (capacity out) (elems out1) = elems out"
  proof (cases "detach_copy_out self out")
    case (Inl p)
    obtain e out1 where "p = (e, out1)" by (cases p)
    with Inl detach_copy_out_Inl(1)[of self out e out1] show ?thesis by simp
  next
    case (Inr r)
    from detach_copy_out_Inr(3)[OF Inr] ne show ?thesis by simp
  qed
next
  assume s: "detach_copy_out self out = Inr out'"
  show "scalar_type out = scalar_type self" "scalar_type out' = scalar_type self"
    using detach_copy_out_Inr(2,3)[OF s] by simp_all
  show "\<forall>i<numel self. \<exists>v. load (data_ptr self) i = Some v \<and> load (data_ptr out') i = Some v"
    using detach_copy_out_Inr(4)[OF s] by fastforce
qed

theorem detach_copy_out_same_dtype_witness:
  "scalar_type example_int2 \<noteq> scalar_type example_float4_bound \<and>
   detach_copy_out example_int2 example_float4_bound
     = Inl (UnsupportedDtype, example_float4_bound\<lparr>sizes := [2]\<rparr>) \<and>
   detach_copy_out example_int2 example_int4_bound
     = Inr (example_int4_bound\<lparr>sizes := [2],
              data_ptr := Some [IntV 1, IntV 2, IntV 0, IntV 0]\<rparr>) \<and>
   scalar_type example_int4_bound = scalar_type example_int2"
proof -
  let ?r = "example_int4_bound\<lparr>sizes := [2], data_ptr := Some [IntV 1, IntV 2, IntV 0, IntV 0]\<rparr>"
  have ne: "scalar_type example_int2 \<noteq> scalar_type example_float4_bound"
    by (simp add: example_defs)
  have h: "detach_copy_out example_int2 example_int4_bound = Inr ?r"
    by (simp add: example_defs eval_defs)
  from detach_copy_out_same_dtype[of example_int2 example_float4_bound ?r] ne
  have "\<exists>e out1. detach_copy_out example_int2 example_float4_bound = Inl (e, out1)"
    by blast
  moreover from detach_copy_out_same_dtype[of example_int2 example_int4_bound ?r] h
  have "scalar_type example_int4_bound = scalar_type example_int2"
    by blast
  moreover have "detach_copy_out example_int2 example_float4_bound
     = Inl (UnsupportedDtype, example_float4_bound\<lparr>sizes := [2]\<rparr>)"
    by (simp add: example_defs eval_defs)
  ultimately show ?thesis
    using ne h by blast
qed

section \<open>The entry points of bitwise or\<close>

text \<open>
  Whatever check fails in an entry point of bitwise or, the elements of the output are as
  they were; the output tensor is unchanged if the resize step failed and is the resized
  tensor otherwise.
\<close>

lemma bitwise_or_Tensor_out_Inl:
  assumes "bitwise_or_Tensor_out a b out = Inl (e, out')"
  shows "take (capacity out) (elems out') = elems out"
    and "if e = ShapeMismatch \<or> e = ResizeNotAllowed then out' = out
         else resize_to_broadcast_target_size a b out = Inr out'"
proof -
  show "take (capacity out) (elems out') = elems out"
    using assms
    by (auto simp: bitwise_or_Tensor_out_def Let_def capacity_def
        split: sum.splits if_splits option.splits
        dest: resize_to_broadcast_target_size_Inr)
  show "if e = ShapeMismatch \<or> e = ResizeNotAllowed then out' = out
         else resize_to_broadcast_target_size a b out = Inr out'"
    using assms
    by (auto simp: bitwise_or_Tensor_out_def Let_def
        split: sum.splits if_splits option.splits
        dest: resize_to_broadcast_target_size_Inl)
qed

lemma bitwise_or_Scalar_out_Inl:
  assumes "bitwise_or_Scalar_out a s out = Inl (e, out')"
  shows "take (capacity out) (elems out') = elems out"
    and "if e = ShapeMismatch \<or> e = ResizeNotAllowed then out' = out
         else resize_tensor out (sizes a) = Inr out'"
proof -
  show "take (capacity out) (elems out') = elems out"
    using assms
    by (auto simp: bitwise_or_Scalar_out_def Let_def capacity_def
        split: sum.splits if_splits option.splits
        dest: resize_tensor_Inr(4))
  show "if e = ShapeMismatch \<or> e = ResizeNotAllowed then out' = out
         else resize_tensor out (sizes a) = Inr out'"
    using assms
    by (auto simp: bitwise_or_Scalar_out_def Let_def
        split: sum.splits if_splits option.splits
        dest: resize_tensor_Inl)
qed

text \<open>
  C9: whenever \<^verbatim>\<open>bitwise_or_Scalar_out\<close> succeeds on a tensor \<open>a\<close>, a scalar \<open>b\<close> and an
  output, the shape of the returned output is exactly the shape of \<open>a\<close>.
\<close>

theorem bitwise_or_Scalar_out_shape:
  "bitwise_or_Scalar_out a b out = Inr out' \<Longrightarrow> sizes out' = sizes a"
  by (auto simp: bitwise_or_Scalar_out_def Let_def
      split: sum.splits if_splits option.splits dest: resize_tensor_Inr(1))

theorem bitwise_or_Scalar_out_shape_witness:
  "bitwise_or_Scalar_out example_int2 (ScalarInt 4) example_int4_bound
   = Inr (example_int4_bound\<lparr>sizes := [2],
            data_ptr := Some [IntV 5, IntV 6, IntV 0, IntV 0]\<rparr>)
   \<and> sizes (example_int4_bound\<lparr>sizes := [2],
              data_ptr := Some [IntV 5, IntV 6, IntV 0, IntV 0]\<rparr>) = sizes example_int2"
proof -
  have h: "bitwise_or_Scalar_out example_int2 (ScalarInt 4) example_int4_bound
   = Inr (example_int4_bound\<lparr>sizes := [2],
            data_ptr := Some [IntV 5, IntV 6, IntV 0, IntV 0]\<rparr>)"
    by (simp add: example_defs eval_defs apply_defs)
  from bitwise_or_Scalar_out_shape[OF h] h show ?thesis
    by blast
qed

text \<open>
  C1 as stated fails on the output's shape. A copy from an int tensor of shape \<open>[2]\<close>
  into a float output of shape \<open>[4]\<close> with bound dynamism fails at the dtype check, after
  the resize: the output's shape is then \<open>[2]\<close>. Bitwise or of two float tensors of shape
  \<open>[2]\<close> into an int output of shape \<open>[4]\<close> fails at the cast check in the same way.
\<close>

theorem failed_check_shape_counterexample:
  "detach_copy_out
     \<lparr>sizes = [2], scalar_type = IntT, data_ptr = Some [IntV 1, IntV 2], dynamism = STATIC\<rparr>
     \<lparr>sizes = [4], scalar_type = FloatT,
       data_ptr = Some [FloatV 0, FloatV 0, FloatV 0, FloatV 0], dynamism = DYNAMIC_BOUND\<rparr>
   = Inl (UnsupportedDtype,
     \<lparr>sizes = [2], scalar_type = FloatT,
       data_ptr = Some [FloatV 0, FloatV 0, FloatV 0, FloatV 0], dynamism = DYNAMIC_BOUND\<rparr>)
   \<and> sizes \<lparr>sizes = [2], scalar_type = FloatT,
       data_ptr = Some [FloatV 0, FloatV 0, FloatV 0, FloatV 0], dynamism = DYNAMIC_BOUND\<rparr>
     \<noteq> sizes \<lparr>sizes = [4], scalar_type = FloatT,
       data_ptr = Some [FloatV 0, FloatV 0, FloatV 0, FloatV 0], dynamism = DYNAMIC_BOUND\<rparr>
   \<and> bitwise_or_Tensor_out
     \<lparr>sizes = [2], scalar_type = FloatT, data_ptr = Some [FloatV 1, FloatV 2], dynamism = STATIC\<rparr>
     \<lparr>sizes = [2], scalar_type = FloatT, data_ptr = Some [FloatV 1, FloatV 2], dynamism = STATIC\<rparr>
     \<lparr>sizes = [4], scalar_type = IntT,
       data_ptr = Some [IntV 0, IntV 0, IntV 0, IntV 0], dynamism = DYNAMIC_BOUND\<rparr>
   = Inl (UnsupportedCast,
     \<lparr>sizes = [2], scalar_type = IntT,
       data_ptr = Some [IntV 0, IntV 0, IntV 0, IntV 0], dynamism = DYNAMIC_BOUND\<rparr>)
   \<and> sizes \<lparr>sizes = [2], scalar_type = IntT,
       data_ptr = Some [IntV 0, IntV 0, IntV 0, IntV 0], dynamism = DYNAMIC_BOUND\<rparr>
     \<noteq> sizes \<lparr>sizes = [4], scalar_type = IntT,
       data_ptr = Some [IntV 0, IntV 0, IntV 0, IntV 0], dynamism = DYNAMIC_BOUND\<rparr>"
  by (simp add: eval_defs)

text \<open>
  C1, as the entry points have it: each validation check comes before any output element is
  written and its failure is reported with its own kind. When the shapes do not broadcast
  or the resize is refused, the output tensor is exactly as before the call. When the cast
  check (for the copy: the dtype check) fails, no element has been written, but the output
  has already been resized: its shape is the target shape.
\<close>

theorem failed_check_report:
  "(broadcast (sizes a) (sizes b) = Inl x \<longrightarrow>
      bitwise_or_Tensor_out a b out = Inl (ShapeMismatch, out)) \<and>
   (broadcast (sizes a) (sizes b) = Inr target \<and> resize_tensor out target = Inl x \<longrightarrow>
      bitwise_or_Tensor_out a b out = Inl (ResizeNotAllowed, out)) \<and>
   (broadcast (sizes a) (sizes b) = Inr target \<and> resize_tensor out target = Inr resized \<and>
    \<not> canCast (promoteTypes (scalar_type a) (scalar_type b)) (scalar_type out) \<longrightarrow>
      bitwise_or_Tensor_out a b out = Inl (UnsupportedCast, resized) \<and>
      sizes resized = target \<and> take (capacity out) (elems resized) = elems out) \<and>
   (resize_tensor out (sizes a) = Inl x \<longrightarrow>
      bitwise_or_Scalar_out a s out = Inl (ResizeNotAllowed, out) \<and>
      detach_copy_out a out = Inl (ResizeNotAllowed, out)) \<and>
   (resize_tensor out (sizes a) = Inr resized \<and>
    \<not> canCast (promote_type_with_scalar (scalar_type a) s) (scalar_type out) \<longrightarrow>
      bitwise_or_Scalar_out a s out = Inl (UnsupportedCast, resized) \<and>
      sizes resized = sizes a \<and> take (capacity out) (elems resized) = elems out) \<and>
   (resize_tensor out (sizes a) = Inr resized \<and> scalar_type a \<noteq> scalar_type out \<longrightarrow>
      detach_copy_out a out = Inl (UnsupportedDtype, resized) \<and>
      sizes resized = sizes a \<and> take (capacity out) (elems resized) = elems out)"
proof (intro conjI impI; (elim conjE)?)
  assume "broadcast (sizes a) (sizes b) = Inl x"
  then show "bitwise_or_Tensor_out a b out = Inl (ShapeMismatch, out)"
    using broadcast_Inl[of "sizes a" "sizes b" x]
    by (simp add: bitwise_or_Tensor_out_def resize_to_broadcast_target_size_def)
next
  assume "broadcast (sizes a) (sizes b) = Inr target" and "resize_tensor out target = Inl x"
  then show "bitwise_or_Tensor_out a b out = Inl (ResizeNotAllowed, out)"
    using resize_tensor_Inl[of out target x]
    by (simp add: bitwise_or_Tensor_out_def resize_to_broadcast_target_size_def)
next
  assume bc: "broadcast (sizes a) (sizes b) = Inr target"
    and r: "resize_tensor out target = Inr resized"
    and c: "\<not> canCast (promoteTypes (scalar_type a) (scalar_type b)) (scalar_type out)"
  show "bitwise_or_Tensor_out a b out = Inl (UnsupportedCast, resized)"
    using bc r c resize_tensor_Inr(2)[OF r]
    by (simp add: bitwise_or_Tensor_out_def resize_to_broadcast_target_size_def)
  show "sizes resized = target" "take (capacity out) (elems resized) = elems out"
    using resize_tensor_Inr[OF r] by simp_all
next
  assume r: "resize_tensor out (sizes a) = Inl x"
  show "bitwise_or_Scalar_out a s out = Inl (ResizeNotAllowed, out)"
    using r resize_tensor_Inl[OF r] by (simp add: bitwise_or_Scalar_out_def)
  show "detach_copy_out a out = Inl (ResizeNotAllowed, out)"
    using r resize_tensor_Inl[OF r] by (simp add: detach_copy_out_def)
next
  assume r: "resize_tensor out (sizes a) = Inr resized"
    and c: "\<not> canCast (promote_type_with_scalar (scalar_type a) s) (scalar_type out)"
  show "bitwise_or_Scalar_out a s out = Inl (UnsupportedCast, resized)"
    using r c resize_tensor_Inr(2)[OF r] by (simp add: bitwise_or_Scalar_out_def)
  show "sizes resized = sizes a" "take (capacity out) (elems resized) = elems out"
    using resize_tensor_Inr[OF r] by simp_all
next
  assume r: "resize_tensor out (sizes a) = Inr resized"
    and c: "scalar_type a \<noteq> scalar_type out"
  show "detach_copy_out a out = Inl (UnsupportedDtype, resized)"
    using r c resize_tensor_Inr(1,2)[OF r] by (simp add: detach_copy_out_def)
  show "sizes resized = sizes a" "take (capacity out) (elems resized) = elems out"
    using resize_tensor_Inr[OF r] by simp_all
qed

text \<open>One failing call for each check of each entry point.\<close>

theorem failed_check_report_witness:
  "bitwise_or_Tensor_out example_int2 example_int3_static example_int4_bound
     = Inl (ShapeMismatch, example_int4_bound) \<and>
   bitwise_or_Tensor_out example_int2 example_int2 example_int3_static
     = Inl (ResizeNotAllowed, example_int3_static) \<and>
   bitwise_or_Tensor_out example_float2 example_float2 example_int4_bound
     = Inl (UnsupportedCast, example_int4_bound\<lparr>sizes := [2]\<rparr>) \<and>
   bitwise_or_Scalar_out example_int2 (ScalarDouble 1) example_int3_static
     = Inl (ResizeNotAllowed, example_int3_static) \<and>
   detach_copy_out example_int2 example_int3_static
     = Inl (ResizeNotAllowed, example_int3_static) \<and>
   bitwise_or_Scalar_out example_int2 (ScalarDouble 1) example_int4_bound
     = Inl (UnsupportedCast, example_int4_bound\<lparr>sizes := [2]\<rparr>) \<and>
   detach_copy_out example_int2 example_float4_bound
     = Inl (UnsupportedDtype, example_float4_bound\<lparr>sizes := [2]\<rparr>)"
proof -
  have b1: "broadcast (sizes example_int2) (sizes example_int3_static) = Inl ShapeMismatch"
    by (simp add: example_defs broadcast_def broadcast_dim_def cons_dim_def)
  have b2: "broadcast (sizes example_int2) (sizes example_int2) = Inr [2]"
    and b3: "broadcast (sizes example_float2) (sizes example_float2) = Inr [2]"
    by (simp_all add: example_defs broadcast_def broadcast_dim_def cons_dim_def)
  have r1: "resize_tensor example_int3_static [2] = Inl ResizeNotAllowed"
    and r2: "resize_tensor example_int4_bound [2] = Inr (example_int4_bound\<lparr>sizes := [2]\<rparr>)"
    and r3: "resize_tensor example_float4_bound [2]
               = Inr (example_float4_bound\<lparr>sizes := [2]\<rparr>)"
    by (simp_all add: example_defs resize_tensor_def capacity_def elems_def)
  have s: "sizes example_int2 = [2]"
    by (simp add: example_defs)
  have c1: "\<not> canCast (promoteTypes (scalar_type example_float2) (scalar_type example_float2))
              (scalar_type example_int4_bound)"
    and c2: "\<not> canCast (promote_type_with_scalar (scalar_type example_int2) (ScalarDouble 1))
              (scalar_type example_int4_bound)"
    and c3: "scalar_type example_int2 \<noteq> scalar_type example_float4_bound"
    by (simp_all add: example_defs canCast_def promoteTypes_def promote_type_with_scalar_def)
  note t = failed_check_report
  from t[where a = example_int2 and b = example_int3_static and x = ShapeMismatch
      and out = example_int4_bound] b1
  have "bitwise_or_Tensor_out example_int2 example_int3_static example_int4_bound
     = Inl (ShapeMismatch, example_int4_bound)" by blast
  moreover from t[where a = example_int2 and b = example_int2 and target = "[2]"
      and out = example_int3_static and x = ResizeNotAllowed] b2 r1
  have "bitwise_or_Tensor_out example_int2 example_int2 example_int3_static
     = Inl (ResizeNotAllowed, example_int3_static)" by blast
  moreover from t[where a = example_float2 and b = example_float2 and target = "[2]"
      and out = example_int4_bound and resized = "example_int4_bound\<lparr>sizes := [2]\<rparr>"] b3 r2 c1
  have "bitwise_or_Tensor_out example_float2 example_float2 example_int4_bound
     = Inl (UnsupportedCast, example_int4_bound\<lparr>sizes := [2]\<rparr>)" by blast
  moreover from t[where a = example_int2 and out = example_int3_static and x = ResizeNotAllowed
      and s = "ScalarDouble 1"] r1 s
  have "bitwise_or_Scalar_out example_int2 (ScalarDouble 1) example_int3_static
     = Inl (ResizeNotAllowed, example_int3_static) \<and>
   detach_copy_out example_int2 example_int3_static
     = Inl (ResizeNotAllowed, example_int3_static)" by simp
  moreover from t[where a = example_int2 and out = example_int4_bound and s = "ScalarDouble 1"
      and resized = "example_int4_bound\<lparr>sizes := [2]\<rparr>"] r2 s c2
  have "bitwise_or_Scalar_out example_int2 (ScalarDouble 1) example_int4_bound
     = Inl (UnsupportedCast, example_int4_bound\<lparr>sizes := [2]\<rparr>)" by simp
  moreover from t[where a = example_int2 and out = example_float4_bound
      and resized = "example_float4_bound\<lparr>sizes := [2]\<rparr>"] r3 s c3
  have "detach_copy_out example_int2 example_float4_bound
     = Inl (UnsupportedDtype, example_float4_bound\<lparr>sizes := [2]\<rparr>)" by simp
  ultimately show ?thesis by blast
qed

section \<open>The elementwise applier\<close>

text \<open>
  The loop of the unary applier writes the image of each visited input element at its
  position and leaves every other position of the output as it was.
\<close>

lemma unary_map_loop_Some:
  "unary_map_loop fn src dst idxs = Some dst' \<Longrightarrow> distinct idxs \<Longrightarrow>
     (\<forall>i\<in>set idxs. \<exists>x. load src i = Some x \<and> load dst' i = Some (fn x)) \<and>
     (\<forall>j. j \<notin> set idxs \<longrightarrow> load dst' j = load dst j)"
proof (induction idxs arbitrary: dst)
  case Nil
  then show ?case by simp
next
  case (Cons i rest)
  from Cons.prems(1) obtain x d1 where
    x: "load src i = Some x" and s: "store dst i (fn x) = Some d1"
    and rec: "unary_map_loop fn src d1 rest = Some dst'"
    by (auto split: option.splits)
  from Cons.prems(2) have dr: "distinct rest" and ni: "i \<notin> set rest" by simp_all
  note IH = Cons.IH[OF rec dr]
  from s have d1i: "load d1 i = Some (fn x)" and d1j: "\<And>j. j \<noteq> i \<Longrightarrow> load d1 j = load dst j"
    by (auto simp: store_def load_def split: option.splits if_splits)
  show ?case
    using IH x ni d1i d1j by auto
qed

text \<open>With the identity function the applier copies the input elements.\<close>

lemma apply_unary_map_fn_identity:
  "apply_unary_map_fn (\<lambda>x. x) src dst n = Some dst' \<Longrightarrow> i < n \<Longrightarrow>
     \<exists>x. load src i = Some x \<and> load dst' i = Some x"
  using unary_map_loop_Some[of "\<lambda>x. x" src dst "[0..<n]" dst']
  by (simp add: apply_unary_map_fn_def)

text \<open>
  Over zero elements the applier makes no iteration: whatever the function and the two
  pointers, the output pointer comes back as it was.
\<close>

lemma apply_unary_map_fn_zero: "apply_unary_map_fn fn src dst 0 = Some dst"
  by (simp add: apply_unary_map_fn_def)

text \<open>
  The specification's scenario: bitwise or of the boolean tensor \<open>[false, true]\<close> with
  itself at shape \<open>[1, 2]\<close> is \<open>[false, true]\<close>.
\<close>

lemma bitwise_or_Tensor_out_bool_scenario:
  "bitwise_or_Tensor_out
     \<lparr>sizes = [2], scalar_type = BoolT, data_ptr = Some [BoolV False, BoolV True],
       dynamism = STATIC\<rparr>
     \<lparr>sizes = [1, 2], scalar_type = BoolT, data_ptr = Some [BoolV False, BoolV True],
       dynamism = STATIC\<rparr>
     \<lparr>sizes = [1, 2], scalar_type = BoolT, data_ptr = Some [BoolV False, BoolV False],
       dynamism = STATIC\<rparr>
   = Inr \<lparr>sizes = [1, 2], scalar_type = BoolT, data_ptr = Some [BoolV False, BoolV True],
       dynamism = STATIC\<rparr>"
  by (simp add: eval_defs apply_defs)

end
